theory Spec2Isabelle
  imports Main "HOL-Library.AList" "HOL-Library.Char_ord" "HOL-Library.List_Lexorder"
    "HOL-Library.Multiset"
begin

section \<open>Python values and built-ins used by the two scripts\<close>

text \<open>
  A Python \<open>str\<close> is a list of code points. It is modelled as a \<^typ>\<open>string\<close>, whose
  characters are the code points 0 to 255; the tables below (whitespace, numeric characters)
  are Python's, cut to that range. Python's \<open>int\<close> is unbounded and is modelled as
  \<^typ>\<open>int\<close>. The interpreter's optional cap on the length of decimal conversions
  (\<open>sys.set_int_max_str_digits\<close>) is a process setting and is left out.
  Every exception the scripts can raise is a value of \<open>error\<close>.
\<close>

datatype error =
  IndexError | KeyError | ValueError | UnboundLocalError | AssertionError | ZeroDivisionError |
  OverflowError

definition newline :: char where
  "newline = CHR 0x0A"

definition tab :: char where
  "tab = CHR 0x09"

text \<open>\<open>s.strip('\n')\<close>: newlines are removed at both ends, nothing else.\<close>

definition strip_chars :: "(char \<Rightarrow> bool) \<Rightarrow> string \<Rightarrow> string" where
  "strip_chars p s = rev (dropWhile p (rev (dropWhile p s)))"

definition strip_nl :: "string \<Rightarrow> string" where
  "strip_nl s = strip_chars (\<lambda>c. c = newline) s"

text \<open>\<open>s.startswith(p)\<close>.\<close>

definition startswith :: "string \<Rightarrow> string \<Rightarrow> bool" where
  "startswith s p = (take (length p) s = p)"

text \<open>
  \<open>str.isspace\<close> on one character, which is also what \<open>str.split()\<close> separates on:
  U+0009 to U+000D, U+001C to U+001F, U+0020, U+0085 and U+00A0.
\<close>

definition isspace :: "char \<Rightarrow> bool" where
  "isspace c = (c \<in> set [CHR 0x09, CHR 0x0A, CHR 0x0B, CHR 0x0C, CHR 0x0D,
                        CHR 0x1C, CHR 0x1D, CHR 0x1E, CHR 0x1F, CHR 0x20, CHR 0x85, CHR 0xA0])"

text \<open>\<open>s.split()\<close>: the maximal runs of non-whitespace characters, in order.\<close>

fun split_acc :: "string \<Rightarrow> string \<Rightarrow> string list" where
  "split_acc cur [] = (if cur = [] then [] else [cur])"
| "split_acc cur (c # cs) =
     (if isspace c then (if cur = [] then split_acc [] cs else cur # split_acc [] cs)
      else split_acc (cur @ [c]) cs)"

definition split_ws :: "string \<Rightarrow> string list" where
  "split_ws s = split_acc [] s"

text \<open>\<open>s.split(sep)\<close> for a one-character separator: empty fields are kept.\<close>

fun split_on_acc :: "char \<Rightarrow> string \<Rightarrow> string \<Rightarrow> string list" where
  "split_on_acc sep cur [] = [cur]"
| "split_on_acc sep cur (c # cs) =
     (if c = sep then cur # split_on_acc sep [] cs else split_on_acc sep (cur @ [c]) cs)"

definition split_on :: "char \<Rightarrow> string \<Rightarrow> string list" where
  "split_on sep s = split_on_acc sep [] s"

text \<open>
  \<open>str.isnumeric\<close>: the string is not empty and every character has a Unicode numeric
  value. Below U+0100 these are the ten decimal digits and the six characters
  U+00B2, U+00B3, U+00B9 (superscripts two, three, one) and U+00BC, U+00BD, U+00BE
  (the vulgar fractions).
\<close>

definition isdecimal_char :: "char \<Rightarrow> bool" where
  "isdecimal_char c = (c \<in> set ''0123456789'')"

definition isnumeric_char :: "char \<Rightarrow> bool" where
  "isnumeric_char c =
     (isdecimal_char c \<or> c \<in> set [CHR 0xB2, CHR 0xB3, CHR 0xB9, CHR 0xBC, CHR 0xBD, CHR 0xBE])"

definition isnumeric :: "string \<Rightarrow> bool" where
  "isnumeric s = (s \<noteq> [] \<and> list_all isnumeric_char s)"

definition isdecimal :: "string \<Rightarrow> bool" where
  "isdecimal s = (s \<noteq> [] \<and> list_all isdecimal_char s)"

text \<open>
  \<open>int(s)\<close> and \<open>float(s)\<close> strip whitespace at both ends first. For these two the
  whitespace is C's (U+0009 to U+000D and the space) and the whitespace above U+007F;
  U+001C to U+001F are not stripped.
\<close>

definition isspace_num :: "char \<Rightarrow> bool" where
  "isspace_num c = (c \<in> set [CHR 0x09, CHR 0x0A, CHR 0x0B, CHR 0x0C, CHR 0x0D,
                            CHR 0x20, CHR 0x85, CHR 0xA0])"

definition digit_val :: "char \<Rightarrow> int option" where
  "digit_val c = (if isdecimal_char c then Some (of_char c - 48) else None)"

text \<open>
  The digits of a decimal literal: a digit, then digits, each optionally preceded by one
  underscore. \<open>None\<close> when the text is not of that form.
\<close>

fun digits_loop :: "int \<Rightarrow> string \<Rightarrow> int option" where
  "digits_loop acc [] = Some acc"
| "digits_loop acc [c] =
     (case digit_val c of None \<Rightarrow> None | Some v \<Rightarrow> Some (acc * 10 + v))"
| "digits_loop acc (c # d # ds) =
     (if c = CHR ''_''
      then (case digit_val d of None \<Rightarrow> None | Some v \<Rightarrow> digits_loop (acc * 10 + v) ds)
      else (case digit_val c of None \<Rightarrow> None | Some v \<Rightarrow> digits_loop (acc * 10 + v) (d # ds)))"

definition py_digits :: "string \<Rightarrow> int option" where
  "py_digits s =
     (case s of [] \<Rightarrow> None
      | c # cs \<Rightarrow> (case digit_val c of None \<Rightarrow> None | Some v \<Rightarrow> digits_loop v cs))"

text \<open>\<open>int(s)\<close> in base 10; \<open>None\<close> is the \<open>ValueError\<close>.\<close>

definition py_int :: "string \<Rightarrow> int option" where
  "py_int s =
     (case strip_chars isspace_num s of
        [] \<Rightarrow> None
      | c # cs \<Rightarrow>
          if c = CHR ''-'' then map_option uminus (py_digits cs)
          else if c = CHR ''+'' then py_digits cs
          else py_digits (c # cs))"

definition int_of_str :: "string \<Rightarrow> error + int" where
  "int_of_str s = (case py_int s of None \<Rightarrow> Inl ValueError | Some n \<Rightarrow> Inr n)"

text \<open>\<open>xs[i]\<close> for a non-negative index.\<close>

definition index :: "'a list \<Rightarrow> nat \<Rightarrow> error + 'a" where
  "index xs i = (if i < length xs then Inr (xs ! i) else Inl IndexError)"

text \<open>Sequencing of computations that may raise.\<close>

definition ebind :: "error + 'a \<Rightarrow> ('a \<Rightarrow> error + 'b) \<Rightarrow> error + 'b" where
  "ebind m f = (case m of Inl e \<Rightarrow> Inl e | Inr x \<Rightarrow> f x)"

text \<open>
  A block of statements run in order on a state. When a statement raises, the block stops
  and the state is the one reached so far: the assignments already made stay made.
\<close>

fun run_stmts :: "('s \<Rightarrow> error + 's) list \<Rightarrow> 's \<Rightarrow> error option \<times> 's" where
  "run_stmts [] s = (None, s)"
| "run_stmts (f # fs) s = (case f s of Inl e \<Rightarrow> (Some e, s) | Inr s' \<Rightarrow> run_stmts fs s')"

text \<open>\<open>sep.join(xs)\<close>, and a line of a tab-separated file with its newline.\<close>

fun join :: "string \<Rightarrow> string list \<Rightarrow> string" where
  "join sep [] = []"
| "join sep [x] = x"
| "join sep (x # y # ys) = x @ sep @ join sep (y # ys)"

definition tsv_row :: "string list \<Rightarrow> string" where
  "tsv_row cols = join [tab] cols @ [newline]"

text \<open>\<open>str(n)\<close> for an integer.\<close>

definition digit_char :: "int \<Rightarrow> char" where
  "digit_char d = ''0123456789'' ! nat d"

function str_digits :: "int \<Rightarrow> string \<Rightarrow> string" where
  "str_digits n acc =
     (if n < 10 then digit_char n # acc
      else str_digits (n div 10) (digit_char (n mod 10) # acc))"
  by pat_completeness auto
termination
  by (relation "measure (\<lambda>(n, acc). nat n)") auto

declare str_digits.simps [simp del]

definition str_int :: "int \<Rightarrow> string" where
  "str_int n = (if n < 0 then CHR ''-'' # str_digits (- n) [] else str_digits n [])"

section \<open>Python floats\<close>

text \<open>
  A Python float is an IEEE 754 binary64 value. \<open>Finite neg m e\<close> is the number
  \<open>m * 2 ^ e\<close>, negated when \<open>neg\<close> holds, with \<open>0 \<le> m < 2 ^ 53\<close> and
  \<open>- 1074 \<le> e \<le> 971\<close>; both zeros are values. Conversions and divisions round to the
  nearest value, a tie going to the even mantissa, as the interpreter does. The arithmetic
  below is on integers: a non-negative rational is a numerator \<open>n\<close> over a positive
  denominator \<open>d\<close>.
\<close>

datatype pyfloat = Finite bool int int | Infinite bool | NaN

function bit_length :: "int \<Rightarrow> nat" where
  "bit_length n = (if n \<le> 0 then 0 else Suc (bit_length (n div 2)))"
  by pat_completeness auto
termination
  by (relation "measure nat") auto

function dec_length :: "int \<Rightarrow> nat" where
  "dec_length n = (if n \<le> 0 then 0 else Suc (dec_length (n div 10)))"
  by pat_completeness auto
termination
  by (relation "measure nat") auto

declare bit_length.simps [simp del] dec_length.simps [simp del]

text \<open>\<open>b ^ k \<le> n / d\<close>, for any integer \<open>k\<close>.\<close>

definition pow_le_frac :: "int \<Rightarrow> int \<Rightarrow> int \<Rightarrow> int \<Rightarrow> bool" where
  "pow_le_frac b k n d = (if 0 \<le> k then d * b ^ nat k \<le> n else d \<le> n * b ^ nat (- k))"

text \<open>The integer \<open>k\<close> with \<open>b ^ k \<le> n / d < b ^ (k + 1)\<close>, for \<open>b\<close> two and ten.\<close>

definition ilog2 :: "int \<Rightarrow> int \<Rightarrow> int" where
  "ilog2 n d =
     (let k = int (bit_length n) - int (bit_length d)
      in if pow_le_frac 2 k n d then k else k - 1)"

definition ilog10 :: "int \<Rightarrow> int \<Rightarrow> int" where
  "ilog10 n d =
     (let k = int (dec_length n) - int (dec_length d)
      in if pow_le_frac 10 k n d then k else k - 1)"

text \<open>The integer nearest to \<open>n / d\<close>, a tie going to the even one.\<close>

definition round_half_even :: "int \<Rightarrow> int \<Rightarrow> int" where
  "round_half_even n d =
     (let q = n div d; r = n mod d
      in if 2 * r < d then q else if d < 2 * r then q + 1 else if even q then q else q + 1)"

text \<open>The integer nearest to \<open>(n / d) / b ^ k\<close>.\<close>

definition scale_round :: "int \<Rightarrow> int \<Rightarrow> int \<Rightarrow> int \<Rightarrow> int" where
  "scale_round b k n d =
     (if 0 \<le> k then round_half_even n (d * b ^ nat k)
      else round_half_even (n * b ^ nat (- k)) d)"

text \<open>
  The float nearest to \<open>n / d\<close>, as mantissa and exponent; \<open>None\<close> when the rounded value
  is \<open>2 ^ 1024\<close> or more (overflow).
\<close>

definition round_double :: "int \<Rightarrow> int \<Rightarrow> (int \<times> int) option" where
  "round_double n d =
     (if n = 0 then Some (0, - 1074)
      else
        let e = max (ilog2 n d) (- 1022) - 52;
            m = scale_round 2 e n d;
            m' = (if m = 2 ^ 53 then 2 ^ 52 else m);
            e' = (if m = 2 ^ 53 then e + 1 else e)
        in if 971 < e' then None else Some (m', e'))"

text \<open>\<open>float(n)\<close> for an integer, as the formatting of an integer with \<open>g\<close> does first.\<close>

definition float_of_int :: "int \<Rightarrow> error + pyfloat" where
  "float_of_int n =
     (case round_double \<bar>n\<bar> 1 of
        None \<Rightarrow> Inl OverflowError
      | Some (m, e) \<Rightarrow> Inr (Finite (n < 0) m e))"

text \<open>\<open>a / b\<close> for two integers.\<close>

definition int_truediv :: "int \<Rightarrow> int \<Rightarrow> error + pyfloat" where
  "int_truediv a b =
     (if b = 0 then Inl ZeroDivisionError
      else
        (case round_double \<bar>a\<bar> \<bar>b\<bar> of
           None \<Rightarrow> Inl OverflowError
         | Some (m, e) \<Rightarrow> Inr (Finite ((a < 0) \<noteq> (b < 0)) m e)))"

text \<open>The magnitude \<open>m * 2 ^ e\<close> as a numerator and a denominator.\<close>

definition frac_num :: "int \<Rightarrow> int \<Rightarrow> int" where
  "frac_num m e = (if 0 \<le> e then m * 2 ^ nat e else m)"

definition frac_den :: "int \<Rightarrow> int" where
  "frac_den e = (if 0 \<le> e then 1 else 2 ^ nat (- e))"

text \<open>\<open>x / 100\<close> for a float \<open>x\<close>.\<close>

definition float_div100 :: "pyfloat \<Rightarrow> pyfloat" where
  "float_div100 x =
     (case x of
        NaN \<Rightarrow> NaN
      | Infinite s \<Rightarrow> Infinite s
      | Finite s m e \<Rightarrow>
          (case round_double (frac_num m e) (frac_den e * 100) of
             None \<Rightarrow> Infinite s
           | Some (m', e') \<Rightarrow> Finite s m' e'))"

text \<open>
  The format \<open>g\<close> with a precision (the leading \<open>0\<close> of \<open>0.6g\<close> and \<open>0.08g\<close> asks for
  zero padding to a width that is not given, and has no effect): the value is rounded to
  that many significant digits, trailing zeros are dropped, and the exponent form is used
  when the decimal exponent is below \<open>- 4\<close> or not below the precision.
\<close>

definition rstrip_zeros :: "string \<Rightarrow> string" where
  "rstrip_zeros s = rev (dropWhile (\<lambda>c. c = CHR ''0'') (rev s))"

definition format_exp :: "int \<Rightarrow> string" where
  "format_exp x =
     (let a = str_int \<bar>x\<bar>
      in (if x < 0 then ''e-'' else ''e+'') @ (if length a < 2 then CHR ''0'' # a else a))"

text \<open>The significant digits of \<open>n / d\<close>, without trailing zeros, and its decimal exponent
  after the rounding to \<open>p\<close> digits.\<close>

definition g_digits :: "nat \<Rightarrow> int \<Rightarrow> int \<Rightarrow> string \<times> int" where
  "g_digits p n d =
     (let x0 = ilog10 n d;
          d0 = scale_round 10 (x0 - int p + 1) n d
      in if d0 = 10 ^ p then (rstrip_zeros (str_int (10 ^ (p - 1))), x0 + 1)
         else (rstrip_zeros (str_int d0), x0))"

text \<open>The digits laid out with exponent \<open>x\<close>: exponent form, or fixed form with the point
  after \<open>x + 1\<close> digits, or after leading zeros.\<close>

definition g_layout :: "nat \<Rightarrow> string \<Rightarrow> int \<Rightarrow> string" where
  "g_layout p ds x =
     (if x < - 4 \<or> int p \<le> x
      then take 1 ds @ (if 1 < length ds then CHR ''.'' # drop 1 ds else []) @ format_exp x
      else if 0 \<le> x
      then take (nat x + 1) ds @ replicate (nat x + 1 - length ds) CHR ''0'' @
           (if nat x + 1 < length ds then CHR ''.'' # drop (nat x + 1) ds else [])
      else ''0.'' @ replicate (nat (- x - 1)) CHR ''0'' @ ds)"

definition format_g_mag :: "nat \<Rightarrow> int \<Rightarrow> int \<Rightarrow> string" where
  "format_g_mag prec n d =
     (if n = 0 then ''0''
      else (case g_digits (max 1 prec) n d of (ds, x) \<Rightarrow> g_layout (max 1 prec) ds x))"

definition format_g :: "nat \<Rightarrow> pyfloat \<Rightarrow> string" where
  "format_g prec x =
     (case x of
        NaN \<Rightarrow> ''nan''
      | Infinite s \<Rightarrow> (if s then ''-inf'' else ''inf'')
      | Finite s m e \<Rightarrow>
          (if s then ''-'' else []) @ format_g_mag prec (frac_num m e) (frac_den e))"

text \<open>An integer formatted with \<open>g\<close>: it is converted to a float first.\<close>

definition format_g_int :: "nat \<Rightarrow> int \<Rightarrow> error + string" where
  "format_g_int prec n = ebind (float_of_int n) (\<lambda>x. Inr (format_g prec x))"

text \<open>
  \<open>float(s)\<close>; \<open>None\<close> is the \<open>ValueError\<close>. An underscore must stand between two digits;
  whitespace is stripped at both ends; then come an optional sign and either
  \<open>inf\<close>, \<open>infinity\<close> or \<open>nan\<close> in any case, or digits with an optional point and an
  optional exponent, at least one digit in the mantissa. A value too large is infinite.
\<close>

fun underscores_ok :: "char \<Rightarrow> string \<Rightarrow> bool" where
  "underscores_ok prev [] = (prev \<noteq> CHR ''_'')"
| "underscores_ok prev (c # cs) =
     (if c = CHR ''_'' then isdecimal_char prev \<and> underscores_ok c cs
      else if prev = CHR ''_'' then isdecimal_char c \<and> underscores_ok c cs
      else underscores_ok c cs)"

definition int_of_digits :: "string \<Rightarrow> int" where
  "int_of_digits ds = foldl (\<lambda>a c. a * 10 + (of_char c - 48)) 0 ds"

definition lower :: "char \<Rightarrow> char" where
  "lower c =
     (case map_of (zip ''ABCDEFGHIJKLMNOPQRSTUVWXYZ'' ''abcdefghijklmnopqrstuvwxyz'') c of
        None \<Rightarrow> c
      | Some l \<Rightarrow> l)"

definition parse_exponent :: "string \<Rightarrow> int option" where
  "parse_exponent s =
     (case s of
        [] \<Rightarrow> Some 0
      | c # cs \<Rightarrow>
          if c = CHR ''e'' \<or> c = CHR ''E''
          then
            (let neg = (take 1 cs = ''-'');
                 ds = (if take 1 cs = ''-'' \<or> take 1 cs = ''+'' then drop 1 cs else cs)
             in if ds \<noteq> [] \<and> list_all isdecimal_char ds
                then Some (if neg then - int_of_digits ds else int_of_digits ds)
                else None)
          else None)"

definition parse_decimal :: "string \<Rightarrow> (int \<times> int) option" where
  "parse_decimal s =
     (let ip = takeWhile isdecimal_char s;
          r1 = dropWhile isdecimal_char s;
          has_dot = (take 1 r1 = ''.'');
          r2 = (if has_dot then drop 1 r1 else r1);
          fp = (if has_dot then takeWhile isdecimal_char r2 else []);
          r3 = (if has_dot then dropWhile isdecimal_char r2 else r2)
      in if ip = [] \<and> fp = [] then None
         else
           (case parse_exponent r3 of
              None \<Rightarrow> None
            | Some e \<Rightarrow> Some (int_of_digits (ip @ fp), e - int (length fp))))"

definition py_float :: "string \<Rightarrow> pyfloat option" where
  "py_float s0 =
     (if \<not> underscores_ok CHR ''x'' s0 then None
      else
        let s = strip_chars isspace_num (filter (\<lambda>c. c \<noteq> CHR ''_'') s0);
            neg = (take 1 s = ''-'');
            body = (if take 1 s = ''-'' \<or> take 1 s = ''+'' then drop 1 s else s);
            low = map lower body
        in if low = ''inf'' \<or> low = ''infinity'' then Some (Infinite neg)
           else if low = ''nan'' then Some NaN
           else
             (case parse_decimal body of
                None \<Rightarrow> None
              | Some (mant, ex) \<Rightarrow>
                  (case round_double (if 0 \<le> ex then mant * 10 ^ nat ex else mant)
                                     (if 0 \<le> ex then 1 else 10 ^ nat (- ex)) of
                     None \<Rightarrow> Some (Infinite neg)
                   | Some (m, e) \<Rightarrow> Some (Finite neg m e))))"

definition float_of_str :: "string \<Rightarrow> error + pyfloat" where
  "float_of_str s = (case py_float s of None \<Rightarrow> Inl ValueError | Some x \<Rightarrow> Inr x)"

section \<open>The records of \<open>parse_repeat_masker_out.py\<close>\<close>

text \<open>
  Both classes have the attributes \<open>r_class\<close> and \<open>r_family\<close>; those of \<open>RepeatDivsum\<close> are
  written \<open>RepeatDivsum.r_class\<close> and \<open>RepeatDivsum.r_family\<close> once \<open>RepeatAnnot\<close> is
  declared. The attribute \<open>end\<close> is written \<open>end'\<close>.
\<close>

record RepeatDivsum =
  r_class :: string
  r_family :: string
  r_id :: string
  abs_len :: int
  wchar_len :: int
  kimura :: pyfloat

text \<open>
  \<open>RepeatDivsum.__init__\<close>: the class is the family up to its first slash, and the
  divergence, a percentage, is stored as a fraction.
\<close>

definition RepeatDivsum_init ::
  "string \<Rightarrow> string \<Rightarrow> int \<Rightarrow> int \<Rightarrow> pyfloat \<Rightarrow> RepeatDivsum" where
  "RepeatDivsum_init rep_class rep_id abs_len_v well_char_len kimura_v =
     \<lparr>r_class = hd (split_on CHR ''/'' rep_class), r_family = rep_class, r_id = rep_id,
      abs_len = abs_len_v, wchar_len = well_char_len, kimura = float_div100 kimura_v\<rparr>"



record RepeatAnnot =
  name :: string
  r_class :: string
  r_family :: string
  chrom :: string
  start :: int
  end' :: int
  strand :: string
  score :: int

text \<open>\<open>RepeatAnnot.__init__\<close>: the class is the family up to its first slash.\<close>

definition RepeatAnnot_init ::
  "string \<Rightarrow> string \<Rightarrow> string \<Rightarrow> int \<Rightarrow> int \<Rightarrow> string \<Rightarrow> int \<Rightarrow> RepeatAnnot" where
  "RepeatAnnot_init rep_name rep_class chromosome start_v end_v strand_v sw_score_v =
     \<lparr>name = rep_name, r_class = hd (split_on CHR ''/'' rep_class), r_family = rep_class,
      chrom = chromosome, start = start_v, end' = end_v, strand = strand_v,
      score = sw_score_v\<rparr>"

section \<open>\<open>parse_crossmatch_table\<close>\<close>

text \<open>
  The state of the loop: the list being built, the two counters, the local variables the
  \<open>try\<close> block assigns (\<open>None\<close> while a variable is unbound) and the lines reported by the
  \<open>except\<close> branch, each with its index.
\<close>

record cm_state =
  cross_match :: "RepeatAnnot list"
  records :: nat
  kept :: nat
  sw_score :: "int option"
  chromosome :: "string option"
  start_bp :: "int option"
  end_bp :: "int option"
  re_name :: "string option"
  re_class :: "string option"
  strand_v :: "string option"
  reported :: "(nat \<times> string) list"

definition cm_init :: cm_state where
  "cm_init = \<lparr>cross_match = [], records = 0, kept = 0, sw_score = None, chromosome = None,
              start_bp = None, end_bp = None, re_name = None, re_class = None,
              strand_v = None, reported = []\<rparr>"

text \<open>The body of the \<open>try\<close> block, one entry per statement.\<close>

definition try_body :: "string list \<Rightarrow> cm_state \<Rightarrow> error option \<times> cm_state" where
  "try_body flds =
     run_stmts
       [\<lambda>s. Inr (s\<lparr>records := records s + 1\<rparr>),
        \<lambda>s. ebind (index flds 0) (\<lambda>f. ebind (int_of_str f) (\<lambda>n. Inr (s\<lparr>sw_score := Some n\<rparr>))),
        \<lambda>s. ebind (index flds 4) (\<lambda>f. Inr (s\<lparr>chromosome := Some f\<rparr>)),
        \<lambda>s. ebind (index flds 5) (\<lambda>f. ebind (int_of_str f) (\<lambda>n. Inr (s\<lparr>start_bp := Some n\<rparr>))),
        \<lambda>s. ebind (index flds 6) (\<lambda>f. ebind (int_of_str f) (\<lambda>n. Inr (s\<lparr>end_bp := Some n\<rparr>))),
        \<lambda>s. ebind (index flds 9) (\<lambda>f. Inr (s\<lparr>re_name := Some f\<rparr>)),
        \<lambda>s. ebind (index flds 10) (\<lambda>f. Inr (s\<lparr>re_class := Some f\<rparr>)),
        \<lambda>s. ebind (index flds 8) (\<lambda>f. Inr (s\<lparr>strand_v := Some f\<rparr>)),
        \<lambda>s. Inr (if strand_v s = Some ''C'' then s\<lparr>strand_v := Some ''-''\<rparr> else s)]"

text \<open>
  The statements after the \<open>try\<close>: reading an unbound local raises \<open>UnboundLocalError\<close>;
  otherwise the record is built, counted and appended.
\<close>

definition append_annotation :: "cm_state \<Rightarrow> error + cm_state" where
  "append_annotation s =
     (case (re_name s, re_class s, chromosome s, start_bp s, end_bp s, strand_v s, sw_score s) of
        (Some n, Some c, Some ch, Some st, Some en, Some sd, Some sc) \<Rightarrow>
          Inr (s\<lparr>kept := kept s + 1,
                 cross_match := cross_match s @ [RepeatAnnot_init n c ch st en sd sc]\<rparr>)
      | _ \<Rightarrow> Inl UnboundLocalError)"

text \<open>One iteration of the loop, on line \<open>i\<close> of the file.\<close>

definition cm_line :: "nat \<Rightarrow> string \<Rightarrow> cm_state \<Rightarrow> error + cm_state" where
  "cm_line i raw s =
     (let line = strip_nl raw in
      if startswith line ''#'' then Inr s
      else if length line = 0 then Inr s
      else
        let flds = split_ws line in
        ebind (index flds 0) (\<lambda>f0.
          if \<not> isnumeric f0 then Inr s
          else
            (case try_body flds s of
               (None, s') \<Rightarrow> append_annotation s'
             | (Some e, s') \<Rightarrow>
                 if e = IndexError
                 then append_annotation (s'\<lparr>reported := reported s' @ [(i, line)]\<rparr>)
                 else Inl e)))"

fun cm_loop :: "(nat \<times> string) list \<Rightarrow> cm_state \<Rightarrow> error + cm_state" where
  "cm_loop [] s = Inr s"
| "cm_loop ((i, raw) # rest) s = ebind (cm_line i raw s) (cm_loop rest)"

text \<open>
  The whole run on the lines of the file, with the counters and the reported lines, and the
  function itself, which returns the list.
\<close>

definition parse_crossmatch_run :: "string list \<Rightarrow> error + cm_state" where
  "parse_crossmatch_run lines = cm_loop (enumerate 0 lines) cm_init"

definition parse_crossmatch_table :: "string list \<Rightarrow> error + RepeatAnnot list" where
  "parse_crossmatch_table lines = ebind (parse_crossmatch_run lines) (\<lambda>s. Inr (cross_match s))"

section \<open>\<open>parse_divsum_table\<close>\<close>

text \<open>
  The dictionary \<open>divsum\<close> is an association list with one pair per key, in the order of
  first insertion: \<open>d[k] = v\<close> is \<open>AList.update k v\<close>, \<open>d.get(k)\<close> is \<open>map_of d k\<close>, and
  \<open>d[k]\<close> raises \<open>KeyError\<close> for a missing key. The state of the loop is the dictionary and
  the two counters.
\<close>

type_synonym divsum_dict = "(string \<times> RepeatDivsum) list"

definition dict_get :: "('k \<times> 'v) list \<Rightarrow> 'k \<Rightarrow> error + 'v" where
  "dict_get d k = (case map_of d k of None \<Rightarrow> Inl KeyError | Some v \<Rightarrow> Inr v)"

record ds_state =
  divsum :: divsum_dict
  records_d :: nat
  discard :: nat

definition ds_init :: ds_state where
  "ds_init = \<lparr>divsum = [], records_d = 0, discard = 0\<rparr>"

text \<open>
  One iteration of the loop. The indices 0 to 4 are read after the test that there are
  exactly five fields.
\<close>

definition ds_line :: "int \<Rightarrow> string \<Rightarrow> ds_state \<Rightarrow> error + ds_state" where
  "ds_line min_len raw s =
     (let ln = strip_nl raw in
      if startswith ln ''#'' then Inr s
      else if length ln = 0 then Inr s
      else
        let flds = split_on tab ln in
        if length flds \<noteq> 5 then Inr s
        else if flds ! 0 \<in> set [''Class'', ''ARTEFACT'', ''Simple_repeat'', ''-----''] then Inr s
        else
          let s1 = s\<lparr>records_d := records_d s + 1\<rparr> in
          ebind (int_of_str (flds ! 2)) (\<lambda>abs_len_v.
          ebind (int_of_str (flds ! 3)) (\<lambda>well_char_len.
          ebind (float_of_str (flds ! 4)) (\<lambda>kimura_v.
            let repeat_summary =
                  RepeatDivsum_init (flds ! 0) (flds ! 1) abs_len_v well_char_len kimura_v
            in if wchar_len repeat_summary < min_len
               then Inr (s1\<lparr>discard := discard s1 + 1\<rparr>)
               else Inr (s1\<lparr>divsum :=
                               AList.update (r_id repeat_summary) repeat_summary (divsum s1)\<rparr>)))))"

fun ds_loop :: "int \<Rightarrow> string list \<Rightarrow> ds_state \<Rightarrow> error + ds_state" where
  "ds_loop min_len [] s = Inr s"
| "ds_loop min_len (raw # rest) s = ebind (ds_line min_len raw s) (ds_loop min_len rest)"

text \<open>The whole run, with its counters, and the function, which returns the dictionary.\<close>

definition parse_divsum_run :: "string list \<Rightarrow> int \<Rightarrow> error + ds_state" where
  "parse_divsum_run lines min_len = ds_loop min_len lines ds_init"

definition parse_divsum_table :: "string list \<Rightarrow> int \<Rightarrow> error + divsum_dict" where
  "parse_divsum_table lines min_len =
     ebind (parse_divsum_run lines min_len) (\<lambda>s. Inr (divsum s))"

text \<open>
  Lines 86 to 106 of the loop body on their own: the record a line stands for, \<open>None\<close> for
  a line that is skipped, and all the candidate records of a file, in file order.
\<close>

definition candidate :: "string \<Rightarrow> error + RepeatDivsum option" where
  "candidate raw =
     (let ln = strip_nl raw in
      if startswith ln ''#'' then Inr None
      else if length ln = 0 then Inr None
      else
        let flds = split_on tab ln in
        if length flds \<noteq> 5 then Inr None
        else if flds ! 0 \<in> set [''Class'', ''ARTEFACT'', ''Simple_repeat'', ''-----''] then Inr None
        else
          ebind (int_of_str (flds ! 2)) (\<lambda>abs_len_v.
          ebind (int_of_str (flds ! 3)) (\<lambda>well_char_len.
          ebind (float_of_str (flds ! 4)) (\<lambda>kimura_v.
            Inr (Some (RepeatDivsum_init (flds ! 0) (flds ! 1) abs_len_v well_char_len
                         kimura_v))))))"

fun candidates :: "string list \<Rightarrow> error + RepeatDivsum list" where
  "candidates [] = Inr []"
| "candidates (raw # rest) =
     ebind (candidate raw) (\<lambda>r.
     ebind (candidates rest) (\<lambda>rs. Inr (case r of None \<Rightarrow> rs | Some x \<Rightarrow> x # rs)))"

text \<open>Lines 101 and 108 to 112: what the loop does with a candidate record.\<close>

definition ds_store :: "int \<Rightarrow> ds_state \<Rightarrow> RepeatDivsum \<Rightarrow> ds_state" where
  "ds_store min_len s x =
     (if wchar_len x < min_len
      then s\<lparr>records_d := records_d s + 1, discard := discard s + 1\<rparr>
      else s\<lparr>records_d := records_d s + 1, divsum := AList.update (r_id x) x (divsum s)\<rparr>)"

text \<open>The records that pass the threshold, and the dictionary built from a list of records.\<close>

definition retained :: "int \<Rightarrow> RepeatDivsum list \<Rightarrow> RepeatDivsum list" where
  "retained min_len cands = filter (\<lambda>x. \<not> wchar_len x < min_len) cands"

definition discarded :: "int \<Rightarrow> RepeatDivsum list \<Rightarrow> RepeatDivsum list" where
  "discarded min_len cands = filter (\<lambda>x. wchar_len x < min_len) cands"

definition index_of :: "divsum_dict \<Rightarrow> RepeatDivsum list \<Rightarrow> divsum_dict" where
  "index_of d xs = foldl (\<lambda>d x. AList.update (r_id x) x d) d xs"

section \<open>\<open>merge_cross_divsum\<close> and \<open>clean_divsum_file\<close>\<close>

text \<open>
  A file opened for writing is the list of the strings written to it so far. The run of a
  writer is that list and the exception that ended it, if one did.
\<close>

definition merged_header :: string where
  "merged_header =
     tsv_row [''#Chromosome'', ''StartBP'', ''EndBP'', ''Strand'', ''Name'', ''Class'', ''Family'',
              ''WellCharLen'', ''Kimura'', ''SwScore'']"

text \<open>\<open>str(x)\<close> for a value that is \<open>None\<close> or an integer, and for one that is \<open>None\<close> or a
  string, as an f-string formats it.\<close>

definition str_opt_int :: "int option \<Rightarrow> string" where
  "str_opt_int x = (case x of None \<Rightarrow> ''None'' | Some n \<Rightarrow> str_int n)"

definition str_opt_str :: "string option \<Rightarrow> string" where
  "str_opt_str x = (case x of None \<Rightarrow> ''None'' | Some s \<Rightarrow> s)"

text \<open>
  The body of the loop up to the row: the lookup, the assertion on the classes, and the
  two values taken from the divergence record, \<open>None\<close> both when there is none.
\<close>

definition find_divergence ::
  "divsum_dict \<Rightarrow> RepeatAnnot \<Rightarrow> error + int option \<times> string option" where
  "find_divergence ds annotation =
     (case map_of ds (name annotation) of
        None \<Rightarrow> Inr (None, None)
      | Some divergence \<Rightarrow>
          if r_class annotation \<noteq> RepeatDivsum.r_class divergence then Inl AssertionError
          else Inr (Some (wchar_len divergence), Some (format_g 6 (kimura divergence))))"

text \<open>The ten values of the row, in the order of the f-string; the score comes last and is
  the only one whose formatting can raise.\<close>

definition row_fields ::
  "RepeatAnnot \<Rightarrow> int option \<Rightarrow> string option \<Rightarrow> error + string list" where
  "row_fields annotation wchar_len_v kimura_v =
     ebind (format_g_int 6 (score annotation)) (\<lambda>sc.
       Inr [chrom annotation, str_int (start annotation), str_int (end' annotation),
            strand annotation, name annotation, r_class annotation, r_family annotation,
            str_opt_int wchar_len_v, str_opt_str kimura_v, sc])"

definition merge_row :: "divsum_dict \<Rightarrow> RepeatAnnot \<Rightarrow> error + string" where
  "merge_row ds annotation =
     ebind (find_divergence ds annotation) (\<lambda>(wchar_len_v, kimura_v).
     ebind (row_fields annotation wchar_len_v kimura_v) (\<lambda>cols. Inr (tsv_row cols)))"

record merge_state =
  written :: "string list"
  matches :: nat

fun merge_loop ::
  "divsum_dict \<Rightarrow> RepeatAnnot list \<Rightarrow> merge_state \<Rightarrow> merge_state \<times> error option" where
  "merge_loop ds [] st = (st, None)"
| "merge_loop ds (annotation # rest) st =
     (case merge_row ds annotation of
        Inl e \<Rightarrow> (st, Some e)
      | Inr row \<Rightarrow> merge_loop ds rest (st\<lparr>matches := matches st + 1, written := written st @ [row]\<rparr>))"

text \<open>\<open>sorted(cross_match, key=lambda a: a.start)\<close> is a stable sort on the start.\<close>

definition merge_cross_divsum ::
  "RepeatAnnot list \<Rightarrow> divsum_dict \<Rightarrow> merge_state \<times> error option" where
  "merge_cross_divsum cross_match_v ds =
     merge_loop ds (sort_key start cross_match_v) \<lparr>written = [merged_header], matches = 0\<rparr>"

definition divsum_header :: string where
  "divsum_header = tsv_row [''Class'', ''Repeat'', ''absLen'', ''wellCharLen'', ''Kimura'']"

definition divsum_row :: "RepeatDivsum \<Rightarrow> string" where
  "divsum_row d =
     tsv_row [RepeatDivsum.r_family d, r_id d, str_int (abs_len d),
              str_int (wchar_len d), format_g 8 (kimura d)]"

fun clean_loop :: "divsum_dict \<Rightarrow> string list \<Rightarrow> string list \<Rightarrow> string list \<times> error option" where
  "clean_loop ds [] out = (out, None)"
| "clean_loop ds (element # rest) out =
     (case dict_get ds element of
        Inl e \<Rightarrow> (out, Some e)
      | Inr d \<Rightarrow> clean_loop ds rest (out @ [divsum_row d]))"

text \<open>\<open>sorted(divsum)\<close> is the sorted list of the keys; strings compare by code points.\<close>

definition clean_divsum_file :: "divsum_dict \<Rightarrow> string list \<times> error option" where
  "clean_divsum_file ds = clean_loop ds (sort (map fst ds)) [divsum_header]"

section \<open>\<open>print_table\<close> of \<open>extract_repmap_props.py\<close>\<close>

record RepProp =
  seq_id :: string
  total_length :: int
  total_masked :: int
  interspersed :: int
  dna :: int
  ltr :: int
  line :: int
  sine :: int
  small_rna :: int
  unclassified :: int

definition props_header :: string where
  "props_header =
     tsv_row [''SequenceID'', ''TotalSeqLen_BP'', ''Masked_BP'', ''Masked_Prop'',
              ''Interspersed_BP'', ''Interspersed_Prop'', ''DNA_BP'', ''DNA_Prop'',
              ''LTR_BP'', ''LTR_Prop'', ''LINE_BP'', ''LINE_Prop'', ''SINE_BP'',
              ''SINE_Prop'', ''smallRNA_BP'', ''smallRNA_Prop'', ''Unclassified_BP'',
              ''Unclassified_Prop'']"

text \<open>One proportion: the true division, then the format \<open>0.08g\<close>.\<close>

definition proportion :: "int \<Rightarrow> int \<Rightarrow> error + string" where
  "proportion v total_v = ebind (int_truediv v total_v) (\<lambda>x. Inr (format_g 8 x))"

text \<open>The list \<open>row\<close>: its eighteen elements are evaluated in order.\<close>

definition props_row :: "RepProp \<Rightarrow> error + string list" where
  "props_row rep_props =
     (let total_v = total_length rep_props in
      ebind (proportion (total_masked rep_props) total_v) (\<lambda>p_masked.
      ebind (proportion (interspersed rep_props) total_v) (\<lambda>p_interspersed.
      ebind (proportion (dna rep_props) total_v) (\<lambda>p_dna.
      ebind (proportion (ltr rep_props) total_v) (\<lambda>p_ltr.
      ebind (proportion (line rep_props) total_v) (\<lambda>p_line.
      ebind (proportion (sine rep_props) total_v) (\<lambda>p_sine.
      ebind (proportion (small_rna rep_props) total_v) (\<lambda>p_small_rna.
      ebind (proportion (unclassified rep_props) total_v) (\<lambda>p_unclassified.
        Inr [seq_id rep_props,
             str_int total_v,
             str_int (total_masked rep_props), p_masked,
             str_int (interspersed rep_props), p_interspersed,
             str_int (dna rep_props), p_dna,
             str_int (ltr rep_props), p_ltr,
             str_int (line rep_props), p_line,
             str_int (sine rep_props), p_sine,
             str_int (small_rna rep_props), p_small_rna,
             str_int (unclassified rep_props), p_unclassified])))))))))"

text \<open>The header is written before the row is built; the row is written only if every
  element of it could be computed.\<close>

definition print_table :: "RepProp \<Rightarrow> string list \<times> error option" where
  "print_table rep_props =
     (case props_row rep_props of
        Inl e \<Rightarrow> ([props_header], Some e)
      | Inr row \<Rightarrow> ([props_header, tsv_row row], None))"

section \<open>Example inputs\<close>

text \<open>
  A divergence summary with a comment, the header row and two records, of well-characterized
  lengths 99 and 100, and one in which the identifier \<open>AluY\<close> occurs twice.
\<close>

definition example_divsum :: "string list" where
  "example_divsum =
     [''# divergence summary'' @ [newline],
      tsv_row [''Class'', ''Repeat'', ''absLen'', ''wellCharLen'', ''Kimura%''],
      tsv_row [''SINE/Alu'', ''AluY'', ''300'', ''99'', ''12.5''],
      tsv_row [''LINE/L1'', ''L1M'', ''900'', ''100'', ''3.25'']]"

definition example_duplicates :: "string list" where
  "example_duplicates =
     [tsv_row [''SINE/Alu'', ''AluY'', ''300'', ''280'', ''12.5''],
      tsv_row [''LINE/L1'', ''L1M'', ''900'', ''100'', ''3.25''],
      tsv_row [''SINE/Alu'', ''AluY'', ''310'', ''290'', ''25'']]"

text \<open>The state and the index that the parser reaches on them.\<close>

definition example_divsum_state :: ds_state where
  "example_divsum_state =
     \<lparr>divsum =
        [(''L1M'',
          \<lparr>RepeatDivsum.r_class = ''LINE'', RepeatDivsum.r_family = ''LINE/L1'', r_id = ''L1M'', abs_len = 900,
           wchar_len = 100, kimura = Finite False 4683743612465316 (- 57)\<rparr>)],
      records_d = 2, discard = 1\<rparr>"

definition example_duplicates_index :: divsum_dict where
  "example_duplicates_index =
     [(''AluY'',
       \<lparr>RepeatDivsum.r_class = ''SINE'', RepeatDivsum.r_family = ''SINE/Alu'', r_id = ''AluY'', abs_len = 310,
        wchar_len = 290, kimura = Finite False 4503599627370496 (- 54)\<rparr>),
      (''L1M'',
       \<lparr>RepeatDivsum.r_class = ''LINE'', RepeatDivsum.r_family = ''LINE/L1'', r_id = ''L1M'', abs_len = 900,
        wchar_len = 100, kimura = Finite False 4683743612465316 (- 57)\<rparr>)]"

text \<open>
  Two annotations, in the order they were read, and a divergence index for the first one,
  of a given class. The state of the merge once the header and the row of the second
  annotation, which starts first, are written.
\<close>

definition example_alu :: RepeatAnnot where
  "example_alu = RepeatAnnot_init ''AluY'' ''SINE/Alu'' ''chrI'' 500 800 ''+'' 2310"

definition example_l2 :: RepeatAnnot where
  "example_l2 = RepeatAnnot_init ''L2b'' ''LINE/L2'' ''chrI'' 120 340 ''-'' 687"

definition example_annotations :: "RepeatAnnot list" where
  "example_annotations = [example_alu, example_l2]"

definition example_record :: "string \<Rightarrow> RepeatDivsum" where
  "example_record rep_class =
     RepeatDivsum_init rep_class ''AluY'' 300 280 (Finite False 7036874417766400 (- 49))"

definition example_index :: "string \<Rightarrow> divsum_dict" where
  "example_index rep_class = [(''AluY'', example_record rep_class)]"

definition example_state_l2 :: merge_state where
  "example_state_l2 =
     \<lparr>written =
        [merged_header,
         tsv_row [''chrI'', ''120'', ''340'', ''-'', ''L2b'', ''LINE'', ''LINE/L2'', ''None'', ''None'',
                  ''687'']],
      matches = 1\<rparr>"

definition example_state_both :: merge_state where
  "example_state_both =
     \<lparr>written =
        [merged_header,
         tsv_row [''chrI'', ''120'', ''340'', ''-'', ''L2b'', ''LINE'', ''LINE/L2'', ''None'', ''None'',
                  ''687''],
         tsv_row [''chrI'', ''500'', ''800'', ''+'', ''AluY'', ''SINE'', ''SINE/Alu'', ''280'', ''0.125'',
                  ''2310'']],
      matches = 2\<rparr>"

text \<open>An index whose keys are not in ascending order.\<close>

definition example_unsorted_index :: divsum_dict where
  "example_unsorted_index = [(''L1M'', example_record ''LINE/L1''\<lparr>r_id := ''L1M''\<rparr>),
                             (''AluY'', example_record ''SINE/Alu'')]"

text \<open>A summary with no sequence, one of a sequence of 1000 bases, and one whose count of
  interspersed bases is \<open>2 ^ 1024\<close>.\<close>

definition example_props :: "int \<Rightarrow> int \<Rightarrow> RepProp" where
  "example_props total_v interspersed_v =
     \<lparr>seq_id = ''seq1'', total_length = total_v, total_masked = 250,
      interspersed = interspersed_v, dna = 40, ltr = 30, line = 100, sine = 20, small_rna = 5,
      unclassified = 5\<rparr>"

section \<open>Properties of \<open>parse_crossmatch_table\<close>\<close>

lemma ebind_simps [simp]: "ebind (Inl e) f = Inl e" "ebind (Inr x) f = f x"
  by (simp_all add: ebind_def)

lemma split_acc_all_space: "list_all isspace s \<Longrightarrow> split_acc [] s = []"
  by (induction s) auto

lemma cm_loop_append: "cm_loop (xs @ ys) s = ebind (cm_loop xs s) (cm_loop ys)"
  by (induction xs arbitrary: s) (auto simp: ebind_def split: sum.splits)

lemma cm_line_blank:
  assumes "strip_nl raw \<noteq> []" and "list_all isspace (strip_nl raw)"
  shows "cm_line i raw s = Inl IndexError"
proof -
  obtain c cs where l: "strip_nl raw = c # cs"
    using assms(1) by (cases "strip_nl raw") auto
  with assms(2) have "isspace c" by simp
  then have "c \<noteq> CHR ''#''" by (auto simp: isspace_def)
  then have "\<not> startswith (strip_nl raw) ''#''" by (simp add: startswith_def l)
  moreover have "split_ws (strip_nl raw) = []"
    using assms(2) by (simp add: split_ws_def split_acc_all_space)
  ultimately show ?thesis
    using assms(1) by (simp add: cm_line_def Let_def index_def ebind_def)
qed

text \<open>
  C10. A line that is not empty once its newline is stripped and holds only whitespace is
  neither skipped as empty nor as a comment; its whitespace split has no field, so reading
  field 0 raises \<open>IndexError\<close> outside the \<open>try\<close> block and the parse aborts. Whatever
  follows the line is never read: the run ends in the error of an earlier line, if one
  raised, and in \<open>IndexError\<close> otherwise.
\<close>

theorem parse_crossmatch_blank_line_aborts:
  assumes "strip_nl raw \<noteq> []" and "list_all isspace (strip_nl raw)"
  shows "parse_crossmatch_table (pre @ raw # post) =
           (case parse_crossmatch_run pre of Inl e \<Rightarrow> Inl e | Inr s \<Rightarrow> Inl IndexError)"
  using cm_line_blank [OF assms]
  by (simp add: parse_crossmatch_table_def parse_crossmatch_run_def enumerate_append_eq
      cm_loop_append ebind_def split: sum.splits)

theorem parse_crossmatch_blank_line_aborts_witness:
  "strip_nl ('' '' @ [newline]) \<noteq> [] \<and> list_all isspace (strip_nl ('' '' @ [newline])) \<and>
   parse_crossmatch_table
     ([''SW score''] @ ('' '' @ [newline]) # [''1 2 3 4 chrI 5 6 7 C AluY SINE/Alu'']) =
   Inl IndexError"
proof -
  have h1: "strip_nl ('' '' @ [newline]) \<noteq> []"
    by code_simp
  have h2: "list_all isspace (strip_nl ('' '' @ [newline]))"
    by code_simp
  have h3: "parse_crossmatch_run [''SW score''] = Inr cm_init"
    by code_simp
  show ?thesis
    using parse_crossmatch_blank_line_aborts [OF h1 h2, of "[''SW score'']"
        "[''1 2 3 4 chrI 5 6 7 C AluY SINE/Alu'']"] h1 h2 h3
    by simp
qed

text \<open>
  C1. Two runs of the parser on a record line that is too short. After a complete record,
  the short line \<open>99 x\<close> is reported (line 1) and a record is appended all the same: it
  carries the new score and the other fields of the record before it, and both counters
  reach 2. As the first record of a file, the short line ends the parse with
  \<open>UnboundLocalError\<close>.
\<close>

theorem parse_crossmatch_short_line_appended:
  "parse_crossmatch_run [''1 2 3 4 chrI 5 6 7 C AluY SINE/Alu'' @ [newline], ''99 x''] =
     Inr \<lparr>cross_match =
            [\<lparr>name = ''AluY'', r_class = ''SINE'', r_family = ''SINE/Alu'', chrom = ''chrI'',
              start = 5, end' = 6, strand = ''-'', score = 1\<rparr>,
             \<lparr>name = ''AluY'', r_class = ''SINE'', r_family = ''SINE/Alu'', chrom = ''chrI'',
              start = 5, end' = 6, strand = ''-'', score = 99\<rparr>],
          records = 2, kept = 2, sw_score = Some 99, chromosome = Some ''chrI'',
          start_bp = Some 5, end_bp = Some 6, re_name = Some ''AluY'',
          re_class = Some ''SINE/Alu'', strand_v = Some ''-'', reported = [(1, ''99 x'')]\<rparr> \<and>
   parse_crossmatch_table [''99 x''] = Inl UnboundLocalError"
  by code_simp

text \<open>
  C5. The first field of this line is the one character U+00B2 (superscript two). It is
  not a string of decimal digits, yet \<open>isnumeric\<close> accepts it: the line is not skipped, it
  is counted as a record, and \<open>int\<close> of the field raises \<open>ValueError\<close>, which ends the parse.
  With the first field \<open>SW\<close> the same line is skipped.
\<close>

theorem parse_crossmatch_superscript_field:
  "split_ws (CHR 0xB2 # '' 2 3 4 chrI 5 6 7 + AluY SINE/Alu'') =
     [[CHR 0xB2], ''2'', ''3'', ''4'', ''chrI'', ''5'', ''6'', ''7'', ''+'', ''AluY'', ''SINE/Alu''] \<and>
   \<not> isdecimal [CHR 0xB2] \<and> isnumeric [CHR 0xB2] \<and>
   try_body (split_ws (CHR 0xB2 # '' 2 3 4 chrI 5 6 7 + AluY SINE/Alu'')) cm_init =
     (Some ValueError, cm_init\<lparr>records := 1\<rparr>) \<and>
   parse_crossmatch_table [CHR 0xB2 # '' 2 3 4 chrI 5 6 7 + AluY SINE/Alu''] = Inl ValueError \<and>
   parse_crossmatch_table [''SW 2 3 4 chrI 5 6 7 + AluY SINE/Alu''] = Inr []"
  by code_simp

section \<open>Properties of \<open>parse_divsum_table\<close>\<close>

lemma ds_line_candidate:
  "ds_line min_len raw s =
     ebind (candidate raw) (\<lambda>r. Inr (case r of None \<Rightarrow> s | Some x \<Rightarrow> ds_store min_len s x))"
  by (auto simp: ds_line_def candidate_def ds_store_def Let_def ebind_def split: sum.splits)

lemma ds_loop_candidates:
  "ds_loop min_len lines s =
     ebind (candidates lines) (\<lambda>cands. Inr (foldl (ds_store min_len) s cands))"
proof (induction lines arbitrary: s)
  case Nil
  then show ?case by simp
next
  case (Cons raw rest)
  show ?case
  proof (cases "candidate raw")
    case (Inl e)
    then show ?thesis by (simp add: ds_line_candidate)
  next
    case (Inr r)
    then show ?thesis
      by (cases "candidates rest"; cases r) (simp_all add: ds_line_candidate Cons.IH)
  qed
qed

lemma foldl_ds_store:
  "foldl (ds_store min_len) s cands =
     \<lparr>divsum = index_of (divsum s) (retained min_len cands),
      records_d = records_d s + length cands,
      discard = discard s + length (discarded min_len cands)\<rparr>"
  by (induction cands arbitrary: s)
     (simp_all add: ds_store_def index_of_def retained_def discarded_def)

lemma parse_divsum_run_eq:
  "parse_divsum_run lines min_len =
     ebind (candidates lines) (\<lambda>cands.
       Inr \<lparr>divsum = index_of [] (retained min_len cands), records_d = length cands,
            discard = length (discarded min_len cands)\<rparr>)"
  by (simp add: parse_divsum_run_def ds_loop_candidates foldl_ds_store ds_init_def)

lemma parse_divsum_run_cases:
  assumes "parse_divsum_run lines min_len = Inr s"
  obtains cands where "candidates lines = Inr cands"
    and "s = \<lparr>divsum = index_of [] (retained min_len cands), records_d = length cands,
              discard = length (discarded min_len cands)\<rparr>"
  using assms by (cases "candidates lines") (auto simp: parse_divsum_run_eq)

lemma map_of_index_of:
  "map_of (index_of d xs) k =
     (case find (\<lambda>x. r_id x = k) (rev xs) of None \<Rightarrow> map_of d k | Some x \<Rightarrow> Some x)"
  by (induction xs rule: rev_induct) (auto simp: index_of_def update_conv' split: option.splits)

lemma distinct_index_of: "distinct (map fst d) \<Longrightarrow> distinct (map fst (index_of d xs))"
  by (induction xs arbitrary: d) (simp_all add: index_of_def distinct_update)

lemma keys_index_of: "fst ` set (index_of d xs) = fst ` set d \<union> r_id ` set xs"
  by (induction xs arbitrary: d) (auto simp: index_of_def dom_update)

lemma set_update_subset: "set (AList.update k v al) \<subseteq> insert (k, v) (set al)"
  by (induction al) auto

lemma set_index_of: "set (index_of d xs) \<subseteq> set d \<union> (\<lambda>x. (r_id x, x)) ` set xs"
proof (induction xs arbitrary: d)
  case Nil
  then show ?case by (simp add: index_of_def)
next
  case (Cons x xs)
  have "set (index_of (AList.update (r_id x) x d) xs) \<subseteq>
          set (AList.update (r_id x) x d) \<union> (\<lambda>x. (r_id x, x)) ` set xs"
    by (rule Cons.IH)
  also have "\<dots> \<subseteq> set d \<union> (\<lambda>x. (r_id x, x)) ` set (x # xs)"
    using set_update_subset [of "r_id x" x d] by auto
  finally show ?case by (simp add: index_of_def)
qed

text \<open>
  C4. When the parse returns, the records counter is the number of candidate records of the
  file, the discard counter is the number of those whose well-characterized length is below
  \<open>min_len\<close>, and the index holds the identifiers of exactly the other candidates, those
  with \<open>min_len \<le> wchar_len\<close>, the length \<open>min_len\<close> itself included; every record in the
  index is such a candidate.
\<close>

theorem parse_divsum_min_len_threshold:
  assumes "parse_divsum_run lines min_len = Inr s"
  shows "\<exists>cands. candidates lines = Inr cands \<and>
           records_d s = length cands \<and>
           discard s = length (filter (\<lambda>x. wchar_len x < min_len) cands) \<and>
           fst ` set (divsum s) = r_id ` {x \<in> set cands. min_len \<le> wchar_len x} \<and>
           snd ` set (divsum s) \<subseteq> {x \<in> set cands. min_len \<le> wchar_len x}"
proof -
  from assms obtain cands where c: "candidates lines = Inr cands"
    and s: "s = \<lparr>divsum = index_of [] (retained min_len cands), records_d = length cands,
                 discard = length (discarded min_len cands)\<rparr>"
    by (rule parse_divsum_run_cases)
  have r: "set (retained min_len cands) = {x \<in> set cands. min_len \<le> wchar_len x}"
    by (auto simp: retained_def)
  have "discard s = length (filter (\<lambda>x. wchar_len x < min_len) cands)"
    by (simp add: s discarded_def)
  moreover have "fst ` set (divsum s) = r_id ` {x \<in> set cands. min_len \<le> wchar_len x}"
    by (simp add: s keys_index_of r)
  moreover have "snd ` set (divsum s) \<subseteq> {x \<in> set cands. min_len \<le> wchar_len x}"
    using set_index_of [of "[]" "retained min_len cands"] by (auto simp: s r)
  ultimately show ?thesis
    using c by (auto simp: s)
qed

lemma example_divsum_run: "parse_divsum_run example_divsum 100 = Inr example_divsum_state"
  by code_simp

lemma example_divsum_counters:
  "records_d example_divsum_state = 2 \<and> discard example_divsum_state = 1 \<and>
   map fst (divsum example_divsum_state) = [''L1M''] \<and>
   map (wchar_len \<circ> snd) (divsum example_divsum_state) = [100]"
  by (simp add: example_divsum_state_def)

theorem parse_divsum_min_len_threshold_witness:
  "(parse_divsum_run example_divsum 100 = Inr example_divsum_state \<and>
    (\<exists>cands. candidates example_divsum = Inr cands \<and>
       records_d example_divsum_state = length cands \<and>
       discard example_divsum_state = length (filter (\<lambda>x. wchar_len x < 100) cands) \<and>
       fst ` set (divsum example_divsum_state) =
         r_id ` {x \<in> set cands. 100 \<le> wchar_len x} \<and>
       snd ` set (divsum example_divsum_state) \<subseteq> {x \<in> set cands. 100 \<le> wchar_len x})) \<and>
   (records_d example_divsum_state = 2 \<and> discard example_divsum_state = 1 \<and>
    map fst (divsum example_divsum_state) = [''L1M''] \<and>
    map (wchar_len \<circ> snd) (divsum example_divsum_state) = [100])"
  by (rule conjI [OF conjI [OF example_divsum_run
          parse_divsum_min_len_threshold [OF example_divsum_run]] example_divsum_counters])

text \<open>
  C9. The index returned by the parse has no key twice, and an identifier is mapped to the
  last candidate record of the file that has this identifier and passes the threshold (to
  nothing when there is none).
\<close>

theorem parse_divsum_last_write_wins:
  assumes "parse_divsum_table lines min_len = Inr d"
  shows "distinct (map fst d) \<and>
         (\<exists>cands. candidates lines = Inr cands \<and>
            (\<forall>k. map_of d k =
                   find (\<lambda>x. r_id x = k) (rev (filter (\<lambda>x. min_len \<le> wchar_len x) cands))))"
proof -
  from assms obtain s where run: "parse_divsum_run lines min_len = Inr s" and d: "d = divsum s"
    by (cases "parse_divsum_run lines min_len") (auto simp: parse_divsum_table_def)
  from run obtain cands where c: "candidates lines = Inr cands"
    and s: "s = \<lparr>divsum = index_of [] (retained min_len cands), records_d = length cands,
                 discard = length (discarded min_len cands)\<rparr>"
    by (rule parse_divsum_run_cases)
  have r: "retained min_len cands = filter (\<lambda>x. min_len \<le> wchar_len x) cands"
    by (simp add: retained_def not_less)
  have "distinct (map fst d)"
    by (simp add: d s distinct_index_of)
  moreover have "map_of d k =
      find (\<lambda>x. r_id x = k) (rev (filter (\<lambda>x. min_len \<le> wchar_len x) cands))" for k
    by (simp add: d s map_of_index_of r split: option.splits)
  ultimately show ?thesis
    using c by blast
qed

lemma example_duplicates_table:
  "parse_divsum_table example_duplicates 0 = Inr example_duplicates_index"
  by code_simp

lemma example_duplicates_values:
  "map_option (map r_id) (case candidates example_duplicates of Inl e \<Rightarrow> None | Inr cs \<Rightarrow> Some cs) =
     Some [''AluY'', ''L1M'', ''AluY''] \<and>
   map_option (map abs_len) (case candidates example_duplicates of Inl e \<Rightarrow> None | Inr cs \<Rightarrow> Some cs) =
     Some [300, 900, 310] \<and>
   map_option abs_len (map_of example_duplicates_index ''AluY'') = Some 310"
  by code_simp

theorem parse_divsum_last_write_wins_witness:
  "(parse_divsum_table example_duplicates 0 = Inr example_duplicates_index \<and>
    (distinct (map fst example_duplicates_index) \<and>
     (\<exists>cands. candidates example_duplicates = Inr cands \<and>
        (\<forall>k. map_of example_duplicates_index k =
               find (\<lambda>x. r_id x = k) (rev (filter (\<lambda>x. 0 \<le> wchar_len x) cands)))))) \<and>
   (map_option (map r_id) (case candidates example_duplicates of Inl e \<Rightarrow> None | Inr cs \<Rightarrow> Some cs) =
      Some [''AluY'', ''L1M'', ''AluY''] \<and>
    map_option (map abs_len) (case candidates example_duplicates of Inl e \<Rightarrow> None | Inr cs \<Rightarrow> Some cs) =
      Some [300, 900, 310] \<and>
    map_option abs_len (map_of example_duplicates_index ''AluY'') = Some 310)"
  by (rule conjI [OF conjI [OF example_duplicates_table
          parse_divsum_last_write_wins [OF example_duplicates_table]] example_duplicates_values])

section \<open>Properties of \<open>merge_cross_divsum\<close>\<close>

lemma merge_loop_append:
  "merge_loop ds (xs @ ys) st =
     (case merge_loop ds xs st of
        (st', None) \<Rightarrow> merge_loop ds ys st'
      | (st', Some e) \<Rightarrow> (st', Some e))"
  by (induction xs arbitrary: st) (auto split: sum.splits)

lemma merge_row_Some:
  "map_of ds (name a) = Some d \<Longrightarrow>
   merge_row ds a =
     (if r_class a = RepeatDivsum.r_class d
      then ebind (row_fields a (Some (wchar_len d)) (Some (format_g 6 (kimura d))))
             (\<lambda>cols. Inr (tsv_row cols))
      else Inl AssertionError)"
  by (simp add: merge_row_def find_divergence_def)

lemma merge_loop_None:
  "merge_loop ds xs st0 = (st, None) \<Longrightarrow>
   \<exists>rows. map Inr rows = map (merge_row ds) xs \<and>
     st = st0\<lparr>matches := matches st0 + length xs, written := written st0 @ rows\<rparr>"
proof (induction xs arbitrary: st0)
  case Nil
  then show ?case by simp
next
  case (Cons a xs)
  from Cons.prems obtain row where row: "merge_row ds a = Inr row"
    by (cases "merge_row ds a") auto
  let ?st = "st0\<lparr>matches := matches st0 + 1, written := written st0 @ [row]\<rparr>"
  from Cons.prems row have "merge_loop ds xs ?st = (st, None)" by simp
  from Cons.IH [OF this] obtain rows where rows: "map Inr rows = map (merge_row ds) xs"
    "st = ?st\<lparr>matches := matches ?st + length xs, written := written ?st @ rows\<rparr>"
    by blast
  have "map Inr (row # rows) = map (merge_row ds) (a # xs)"
    using row rows(1) by simp
  moreover have "st = st0\<lparr>matches := matches st0 + length (a # xs),
      written := written st0 @ row # rows\<rparr>"
    using rows(2) by simp
  ultimately show ?case by blast
qed

lemma merge_loop_ok:
  assumes "\<forall>a\<in>set xs. \<exists>row. merge_row ds a = Inr row"
  shows "\<exists>rows. map Inr rows = map (merge_row ds) xs \<and>
           merge_loop ds xs st =
             (st\<lparr>matches := matches st + length xs, written := written st @ rows\<rparr>, None)"
  using assms
proof (induction xs arbitrary: st)
  case Nil
  then show ?case by simp
next
  case (Cons a xs)
  then obtain row where row: "merge_row ds a = Inr row" by auto
  let ?st = "st\<lparr>matches := matches st + 1, written := written st @ [row]\<rparr>"
  from Cons obtain rows where rows: "map Inr rows = map (merge_row ds) xs"
    "merge_loop ds xs ?st =
       (?st\<lparr>matches := matches ?st + length xs, written := written ?st @ rows\<rparr>, None)"
    by (metis list.set_intros(2))
  have "map Inr (row # rows) = map (merge_row ds) (a # xs)"
    using row rows(1) by simp
  moreover have "merge_loop ds (a # xs) st =
      (st\<lparr>matches := matches st + length (a # xs), written := written st @ row # rows\<rparr>, None)"
    using row rows(2) by simp
  ultimately show ?case by blast
qed

lemma merge_row_ok:
  assumes "find_divergence ds a \<noteq> Inl AssertionError"
    and "format_g_int 6 (score a) \<noteq> Inl OverflowError"
  shows "\<exists>row. merge_row ds a = Inr row"
proof -
  obtain w k where wk: "find_divergence ds a = Inr (w, k)"
    using assms(1) by (auto simp: find_divergence_def split: option.splits if_splits)
  obtain sc where sc: "format_g_int 6 (score a) = Inr sc"
    using assms(2)
    by (auto simp: format_g_int_def float_of_int_def ebind_def split: option.splits)
  show ?thesis
    by (simp add: merge_row_def wk row_fields_def sc)
qed

text \<open>
  C2. The annotation \<open>a\<close> has a divergence record \<open>d\<close>, and the annotations sorted before
  it were written without an exception, which left the state \<open>st\<close> (the header and one row
  for each of them). If the classes differ, the merge ends there with \<open>AssertionError\<close>
  and the file is as \<open>st\<close> has it: no row for \<open>a\<close> and none for the annotations after it.
  If the classes are equal, the assertion passes: the row of \<open>a\<close> is built from \<open>d\<close> and,
  once written, the loop goes on with the annotations after \<open>a\<close>.
\<close>

theorem merge_class_mismatch_halts:
  assumes "sort_key start cm = pre @ a # post"
    and "merge_loop ds pre \<lparr>written = [merged_header], matches = 0\<rparr> = (st, None)"
    and "map_of ds (name a) = Some d"
  shows "merge_cross_divsum cm ds =
           (if r_class a = RepeatDivsum.r_class d
            then (case row_fields a (Some (wchar_len d)) (Some (format_g 6 (kimura d))) of
                    Inl e \<Rightarrow> (st, Some e)
                  | Inr cols \<Rightarrow>
                      merge_loop ds post
                        (st\<lparr>matches := matches st + 1, written := written st @ [tsv_row cols]\<rparr>))
            else (st, Some AssertionError)) \<and>
         length (written st) = Suc (length pre)"
proof -
  from merge_loop_None [OF assms(2)] obtain rows
    where "map Inr rows = map (merge_row ds) pre"
      and "st = \<lparr>written = [merged_header], matches = 0\<rparr>
                  \<lparr>matches := 0 + length pre, written := [merged_header] @ rows\<rparr>"
    by auto
  then have len: "length (written st) = Suc (length pre)"
    by (simp, metis length_map)
  have "merge_cross_divsum cm ds = merge_loop ds (a # post) st"
    by (simp add: merge_cross_divsum_def assms(1) merge_loop_append assms(2))
  also have "\<dots> =
      (if r_class a = RepeatDivsum.r_class d
       then (case row_fields a (Some (wchar_len d)) (Some (format_g 6 (kimura d))) of
               Inl e \<Rightarrow> (st, Some e)
             | Inr cols \<Rightarrow>
                 merge_loop ds post
                   (st\<lparr>matches := matches st + 1, written := written st @ [tsv_row cols]\<rparr>))
       else (st, Some AssertionError))"
    by (simp add: merge_row_Some [OF assms(3)] split: sum.splits)
  finally show ?thesis
    using len by simp
qed

lemma example_sorted: "sort_key start example_annotations = [example_l2] @ example_alu # []"
  by code_simp

lemma example_prefix:
  "merge_loop (example_index c) [example_l2] \<lparr>written = [merged_header], matches = 0\<rparr> =
     (example_state_l2, None)"
  by code_simp

lemma example_lookup: "map_of (example_index c) (name example_alu) = Some (example_record c)"
  by code_simp

lemma example_classes:
  "r_class example_alu = ''SINE'' \<and> RepeatDivsum.r_class (example_record ''LINE/L1'') = ''LINE'' \<and>
   RepeatDivsum.r_class (example_record ''SINE/Alu'') = ''SINE''"
  by code_simp

lemma example_row:
  "row_fields example_alu (Some (wchar_len (example_record ''SINE/Alu'')))
     (Some (format_g 6 (kimura (example_record ''SINE/Alu'')))) =
   Inr [''chrI'', ''500'', ''800'', ''+'', ''AluY'', ''SINE'', ''SINE/Alu'', ''280'', ''0.125'', ''2310'']"
  by code_simp

theorem merge_class_mismatch_halts_witness:
  "merge_cross_divsum example_annotations (example_index ''LINE/L1'') =
     (example_state_l2, Some AssertionError) \<and>
   merge_cross_divsum example_annotations (example_index ''SINE/Alu'') =
     (example_state_both, None)"
proof -
  have "merge_cross_divsum example_annotations (example_index ''LINE/L1'') =
          (example_state_l2, Some AssertionError)"
    using merge_class_mismatch_halts [OF example_sorted example_prefix example_lookup,
        of "''LINE/L1''"] example_classes
    by simp
  moreover have "merge_cross_divsum example_annotations (example_index ''SINE/Alu'') =
          (example_state_both, None)"
    using merge_class_mismatch_halts [OF example_sorted example_prefix example_lookup,
        of "''SINE/Alu''"] example_classes example_row
    by (simp add: example_state_l2_def example_state_both_def)
  ultimately show ?thesis by simp
qed

text \<open>
  C3, as stated, fails on an annotation whose score is too large for a float: the score is
  formatted with \<open>0.6g\<close>, the conversion raises \<open>OverflowError\<close>, and the table has no row
  for the annotation although no class differs (here the index is empty).
\<close>

theorem merge_score_overflow_counterexample:
  "find_divergence []
     (RepeatAnnot_init ''AluY'' ''SINE/Alu'' ''chrI'' 500 800 ''+'' (2 ^ 1024)) = Inr (None, None) \<and>
   merge_cross_divsum
     [RepeatAnnot_init ''AluY'' ''SINE/Alu'' ''chrI'' 500 800 ''+'' (2 ^ 1024)] [] =
     (\<lparr>written = [merged_header], matches = 0\<rparr>, Some OverflowError)"
  by code_simp

text \<open>
  C3, amended. When no annotation fails the assertion on the classes and every score can be
  converted to a float, the merge ends without an exception and the table is the header
  followed by one row for each annotation, matched or not: the rows are those of the
  annotations in the order of the stable sort on the start, which is a rearrangement of the
  annotations read, ascending in the start, and which keeps the annotations of one start in
  the order they were read.
\<close>

theorem merge_one_row_per_annotation:
  assumes "\<forall>a\<in>set cm. find_divergence ds a \<noteq> Inl AssertionError"
    and "\<forall>a\<in>set cm. format_g_int 6 (score a) \<noteq> Inl OverflowError"
  shows "\<exists>rows. merge_cross_divsum cm ds =
                  (\<lparr>written = merged_header # rows, matches = length cm\<rparr>, None) \<and>
           map Inr rows = map (merge_row ds) (sort_key start cm) \<and>
           mset (sort_key start cm) = mset cm \<and>
           sorted (map start (sort_key start cm)) \<and>
           (\<forall>k. filter (\<lambda>a. start a = k) (sort_key start cm) = filter (\<lambda>a. start a = k) cm)"
proof -
  have "\<forall>a\<in>set (sort_key start cm). \<exists>row. merge_row ds a = Inr row"
    using assms by (simp add: merge_row_ok)
  from merge_loop_ok [OF this, of "\<lparr>written = [merged_header], matches = 0\<rparr>"]
  obtain rows where rows: "map Inr rows = map (merge_row ds) (sort_key start cm)"
    and run: "merge_cross_divsum cm ds =
                (\<lparr>written = merged_header # rows, matches = length cm\<rparr>, None)"
    by (auto simp: merge_cross_divsum_def)
  moreover have "\<forall>k. filter (\<lambda>a. start a = k) (sort_key start cm) =
      filter (\<lambda>a. start a = k) cm"
    by (simp add: sort_key_stable)
  ultimately show ?thesis
    by auto
qed

lemma example_no_mismatch:
  "\<forall>a\<in>set example_annotations. find_divergence (example_index ''SINE/Alu'') a \<noteq> Inl AssertionError"
  by code_simp

lemma example_scores:
  "\<forall>a\<in>set example_annotations. format_g_int 6 (score a) \<noteq> Inl OverflowError"
  by code_simp

lemma example_rows:
  "map (merge_row (example_index ''SINE/Alu'')) (sort_key start example_annotations) =
     map Inr (tl (written example_state_both))"
  by code_simp

theorem merge_one_row_per_annotation_witness:
  "merge_cross_divsum example_annotations (example_index ''SINE/Alu'') =
     (\<lparr>written = merged_header # tl (written example_state_both),
       matches = length example_annotations\<rparr>, None)"
proof -
  from merge_one_row_per_annotation [OF example_no_mismatch example_scores]
  obtain rows where run: "merge_cross_divsum example_annotations (example_index ''SINE/Alu'') =
        (\<lparr>written = merged_header # rows, matches = length example_annotations\<rparr>, None)"
    and rows: "map Inr rows =
        map (merge_row (example_index ''SINE/Alu'')) (sort_key start example_annotations)"
    by blast
  from rows have "map Inr rows = (map Inr (tl (written example_state_both)) :: (error + string) list)"
    by (simp only: example_rows)
  then have "rows = tl (written example_state_both)"
    by (simp add: inj_map_eq_map)
  with run show ?thesis by simp
qed

text \<open>The letter \<open>N\<close> occurs neither in the text of an integer nor in a formatted float.\<close>

lemma digit_char_not_N: "d < 10 \<Longrightarrow> digit_char d \<noteq> CHR ''N''"
proof -
  assume "d < 10"
  then have "nat d < length ''0123456789''" by simp
  then have "''0123456789'' ! nat d \<in> set ''0123456789''" by (rule nth_mem)
  then show ?thesis
    unfolding digit_char_def by auto
qed

lemma str_digits_not_N: "CHR ''N'' \<notin> set acc \<Longrightarrow> CHR ''N'' \<notin> set (str_digits n acc)"
proof (induction n acc rule: str_digits.induct)
  case (1 n acc)
  show ?case
  proof (cases "n < 10")
    case True
    then show ?thesis
      using digit_char_not_N [of n] "1.prems" by (subst str_digits.simps) auto
  next
    case False
    have "digit_char (n mod 10) \<noteq> CHR ''N''"
      by (rule digit_char_not_N) simp
    then have "CHR ''N'' \<notin> set (digit_char (n mod 10) # acc)"
      using "1.prems" by auto
    then have "CHR ''N'' \<notin> set (str_digits (n div 10) (digit_char (n mod 10) # acc))"
      using False by (intro "1.IH") simp_all
    then show ?thesis
      using False by (subst str_digits.simps) simp
  qed
qed

lemma str_int_not_N: "CHR ''N'' \<notin> set (str_int n)"
  using str_digits_not_N [of "[]" n] str_digits_not_N [of "[]" "- n"]
  by (simp add: str_int_def)

lemma str_int_not_None: "str_int n \<noteq> ''None''"
proof
  assume "str_int n = ''None''"
  then have "CHR ''N'' \<in> set (str_int n)" by simp
  then show False using str_int_not_N [of n] by simp
qed

lemma format_exp_not_N: "CHR ''N'' \<notin> set (format_exp x)"
  using str_int_not_N [of "\<bar>x\<bar>"] by (simp add: format_exp_def Let_def)

lemma rstrip_zeros_not_N: "CHR ''N'' \<notin> set s \<Longrightarrow> CHR ''N'' \<notin> set (rstrip_zeros s)"
  by (auto simp: rstrip_zeros_def dest: set_dropWhileD)

lemma g_digits_not_N: "CHR ''N'' \<notin> set (fst (g_digits p n d))"
  using rstrip_zeros_not_N [OF str_int_not_N]
  by (simp add: g_digits_def Let_def)

lemma g_layout_not_N:
  assumes "CHR ''N'' \<notin> set ds"
  shows "CHR ''N'' \<notin> set (g_layout p ds x)"
proof -
  have "CHR ''N'' \<notin> set (take j ds)" and "CHR ''N'' \<notin> set (drop j ds)" for j
    using assms by (auto dest: in_set_takeD in_set_dropD)
  then show ?thesis
    using assms format_exp_not_N [of x] by (simp add: g_layout_def)
qed

lemma format_g_mag_not_N: "CHR ''N'' \<notin> set (format_g_mag prec n d)"
proof (cases "n = 0")
  case True
  then show ?thesis by (simp add: format_g_mag_def)
next
  case False
  define p where "p = max 1 prec"
  obtain ds x where g: "g_digits p n d = (ds, x)"
    by (cases "g_digits p n d")
  have "CHR ''N'' \<notin> set ds"
    using g_digits_not_N [of p n d] unfolding g by simp
  then have "CHR ''N'' \<notin> set (g_layout p ds x)"
    by (rule g_layout_not_N)
  moreover have "format_g_mag prec n d = g_layout p ds x"
    unfolding format_g_mag_def p_def [symmetric] g using False by simp
  ultimately show ?thesis by simp
qed

lemma format_g_not_None: "format_g prec x \<noteq> ''None''"
proof
  assume eq: "format_g prec x = ''None''"
  show False
  proof (cases x)
    case (Finite s m e)
    from eq have "CHR ''N'' \<in> set (format_g prec x)" by simp
    with Finite have "CHR ''N'' \<in> set (format_g_mag prec (frac_num m e) (frac_den e))"
      by (simp add: format_g_def split: if_splits)
    then show False
      using format_g_mag_not_N [of prec "frac_num m e" "frac_den e"] by simp
  next
    case (Infinite s)
    with eq show False by (simp add: format_g_def split: if_splits)
  next
    case NaN
    with eq show False by (simp add: format_g_def)
  qed
qed


lemma example_row_l2:
  "merge_row (example_index ''SINE/Alu'') example_l2 =
     Inr (tsv_row [''chrI'', ''120'', ''340'', ''-'', ''L2b'', ''LINE'', ''LINE/L2'', ''None'', ''None'',
                   ''687''])"
  by code_simp

lemma example_row_l2_fields:
  "format_g_int 6 (score example_l2) = Inr ''687'' \<and>
   map_of (example_index ''SINE/Alu'') (name example_l2) = None \<and>
   map_of (example_index ''SINE/Alu'') (name example_alu) =
     Some (example_record ''SINE/Alu'') \<and>
   str_int (wchar_len (example_record ''SINE/Alu'')) = ''280'' \<and>
   format_g 6 (kimura (example_record ''SINE/Alu'')) = ''0.125''"
  by code_simp


section \<open>Properties of \<open>clean_divsum_file\<close>\<close>

lemma sort_map_fst: "sort (map fst ds) = map fst (sort_key fst ds)"
  by (rule properties_for_sort) simp_all

lemma dict_get_member:
  "distinct (map fst ds) \<Longrightarrow> (k, v) \<in> set ds \<Longrightarrow> dict_get ds k = Inr v"
  by (simp add: dict_get_def)

lemma clean_loop_ok:
  assumes "distinct (map fst ds)" and "set xs \<subseteq> set ds"
  shows "clean_loop ds (map fst xs) out = (out @ map (\<lambda>(k, d). divsum_row d) xs, None)"
  using assms(2)
proof (induction xs arbitrary: out)
  case Nil
  then show ?case by simp
next
  case (Cons x xs)
  obtain k v where x: "x = (k, v)" by (cases x)
  with Cons.prems have "dict_get ds k = Inr v"
    using dict_get_member [OF assms(1)] by simp
  then show ?case
    using Cons x by simp
qed


lemma example_unsorted_distinct: "distinct (map fst example_unsorted_index)"
  by code_simp

lemma example_unsorted_file:
  "map fst example_unsorted_index = [''L1M'', ''AluY''] \<and>
   clean_divsum_file example_unsorted_index =
     ([divsum_header,
       tsv_row [''SINE/Alu'', ''AluY'', ''300'', ''280'', ''0.125''],
       tsv_row [''LINE/L1'', ''L1M'', ''300'', ''280'', ''0.125'']], None)"
  by code_simp

lemma example_unsorted_keyed: "\<forall>(k, d)\<in>set example_unsorted_index. r_id d = k"
  by code_simp


section \<open>Properties of \<open>print_table\<close>\<close>

lemma proportion_zero: "proportion v 0 = Inl ZeroDivisionError"
  by (simp add: proportion_def int_truediv_def)

lemma proportion_ok:
  assumes "t \<noteq> 0" and "int_truediv v t \<noteq> Inl OverflowError"
  obtains x where "int_truediv v t = Inr x" and "proportion v t = Inr (format_g 8 x)"
  using assms by (auto simp: proportion_def int_truediv_def split: option.splits)

text \<open>
  C7, as stated, fails on a summary whose total length is positive and one of whose counts,
  divided by it, is too large for a float: the division raises \<open>OverflowError\<close>, the header
  is the only line written.
\<close>

lemma overflow_division:
  "proportion 1 1 = Inr ''1'' \<and> proportion (2 ^ 1024) 1 = Inl OverflowError"
  by code_simp



lemma example_props_zero: "total_length (example_props 0 200) = 0"
  by (simp add: example_props_def)

lemma example_props_range:
  "0 < total_length (example_props 1000 200) \<and>
   (\<forall>v\<in>set [total_masked (example_props 1000 200), interspersed (example_props 1000 200),
              dna (example_props 1000 200), ltr (example_props 1000 200),
              line (example_props 1000 200), sine (example_props 1000 200),
              small_rna (example_props 1000 200), unclassified (example_props 1000 200)].
      int_truediv v (total_length (example_props 1000 200)) \<noteq> Inl OverflowError)"
  by code_simp

lemma example_props_table:
  "print_table (example_props 1000 200) =
     ([props_header,
       tsv_row [''seq1'', ''1000'', ''250'', ''0.25'', ''200'', ''0.2'', ''40'', ''0.04'', ''30'', ''0.03'',
                ''100'', ''0.1'', ''20'', ''0.02'', ''5'', ''0.005'', ''5'', ''0.005'']], None) \<and>
   proportion 250 1000 = Inr ''0.25''"
  by code_simp


end
